theory Spec2Isabelle
  imports Complex_Main
begin

section \<open>Numeric values of the two scripts\<close>

text \<open>
  Both scripts compute on 64-bit floating-point values that pandas and numpy hand
  around. The model keeps the special values of that arithmetic and computes exactly on
  the finite ones: a value is a real number, one of the two infinities, or NaN (which is
  also how pandas marks a missing cell). Of the rounding of the binary format only that
  of the logarithm is modelled, because the weight of the decomposition divides by a
  difference of two logarithms; sums, differences, products and quotients are exact.
  Overflow and underflow are not modelled, and zero carries no sign (a division by zero
  behaves as a division by +0.0).
\<close>

datatype fval = Num real | PInf | NInf | NaN

text \<open>\<^verbatim>\<open>pd.isna(x)\<close> on a float.\<close>

definition isna :: "fval \<Rightarrow> bool" where
  "isna x = (x = NaN)"

text \<open>The comparisons \<^verbatim>\<open>==\<close>, \<^verbatim>\<open><\<close>, \<^verbatim>\<open><=\<close>: every comparison with NaN is false.\<close>

definition feq :: "fval \<Rightarrow> fval \<Rightarrow> bool" where
  "feq x y = (x \<noteq> NaN \<and> x = y)"

fun flt :: "fval \<Rightarrow> fval \<Rightarrow> bool" where
  "flt NaN y = False"
| "flt x NaN = False"
| "flt (Num a) (Num b) = (a < b)"
| "flt (Num a) PInf = True"
| "flt (Num a) NInf = False"
| "flt PInf y = False"
| "flt NInf (Num b) = True"
| "flt NInf PInf = True"
| "flt NInf NInf = False"

definition fle :: "fval \<Rightarrow> fval \<Rightarrow> bool" where
  "fle x y = (flt x y \<or> feq x y)"

definition fgt :: "fval \<Rightarrow> fval \<Rightarrow> bool" where
  "fgt x y = flt y x"

definition fge :: "fval \<Rightarrow> fval \<Rightarrow> bool" where
  "fge x y = fle y x"

fun fneg :: "fval \<Rightarrow> fval" where
  "fneg (Num a) = Num (- a)"
| "fneg PInf = NInf"
| "fneg NInf = PInf"
| "fneg NaN = NaN"

fun fadd :: "fval \<Rightarrow> fval \<Rightarrow> fval" where
  "fadd NaN y = NaN"
| "fadd x NaN = NaN"
| "fadd (Num a) (Num b) = Num (a + b)"
| "fadd (Num a) PInf = PInf"
| "fadd (Num a) NInf = NInf"
| "fadd PInf (Num b) = PInf"
| "fadd PInf PInf = PInf"
| "fadd PInf NInf = NaN"
| "fadd NInf (Num b) = NInf"
| "fadd NInf PInf = NaN"
| "fadd NInf NInf = NInf"

definition fsub :: "fval \<Rightarrow> fval \<Rightarrow> fval" where
  "fsub x y = fadd x (fneg y)"

text \<open>The sign of an infinite product: \<open>inf_signed pos\<close> is the infinity of that sign.\<close>

definition inf_signed :: "bool \<Rightarrow> fval" where
  "inf_signed pos = (if pos then PInf else NInf)"

fun fmul :: "fval \<Rightarrow> fval \<Rightarrow> fval" where
  "fmul NaN y = NaN"
| "fmul x NaN = NaN"
| "fmul (Num a) (Num b) = Num (a * b)"
| "fmul (Num a) PInf = (if a = 0 then NaN else inf_signed (0 < a))"
| "fmul (Num a) NInf = (if a = 0 then NaN else inf_signed (a < 0))"
| "fmul PInf (Num b) = (if b = 0 then NaN else inf_signed (0 < b))"
| "fmul NInf (Num b) = (if b = 0 then NaN else inf_signed (b < 0))"
| "fmul PInf PInf = PInf"
| "fmul PInf NInf = NInf"
| "fmul NInf PInf = NInf"
| "fmul NInf NInf = PInf"

text \<open>
  Division of numpy scalars and of pandas columns: a zero divisor gives an infinity, or
  NaN for \<open>0 / 0\<close>; nothing is raised.
\<close>

fun fdiv :: "fval \<Rightarrow> fval \<Rightarrow> fval" where
  "fdiv NaN y = NaN"
| "fdiv x NaN = NaN"
| "fdiv (Num a) (Num b) =
     (if b \<noteq> 0 then Num (a / b) else if a = 0 then NaN else inf_signed (0 < a))"
| "fdiv (Num a) PInf = Num 0"
| "fdiv (Num a) NInf = Num 0"
| "fdiv PInf (Num b) = inf_signed (0 \<le> b)"
| "fdiv NInf (Num b) = inf_signed (b < 0)"
| "fdiv PInf PInf = NaN"
| "fdiv PInf NInf = NaN"
| "fdiv NInf PInf = NaN"
| "fdiv NInf NInf = NaN"

text \<open>
  Rounding to the nearest integer, a tie going to the even neighbour, and the binary64
  number nearest to a real number: 53 significant bits, so that the numbers between
  \<open>2 ^ e\<close> and \<open>2 ^ (e + 1)\<close> are \<open>2 ^ (e - 52)\<close> apart.
\<close>

definition rint :: "real \<Rightarrow> int" where
  "rint x =
     (let f = \<lfloor>x\<rfloor>; d = x - of_int f
      in if d < 1 / 2 then f else if 1 / 2 < d then f + 1 else if even f then f else f + 1)"

definition fl64 :: "real \<Rightarrow> real" where
  "fl64 x =
     (if x = 0 then 0
      else let ulp = 2 powr (of_int \<lfloor>log 2 \<bar>x\<bar>\<rfloor> - 52)
           in of_int (rint (x / ulp)) * ulp)"

text \<open>
  The logarithm that \<^verbatim>\<open>np.log\<close> returns for a positive finite number, taken as the
  correctly rounded one: the binary64 number nearest to the exact logarithm. Two
  different numbers can have the same one. The logarithm of a positive binary64 number
  is zero or lies between \<open>1e-16\<close> and \<open>745\<close> in magnitude, well inside the range in
  which \<open>fl64\<close> describes the format.
\<close>

definition np_log :: "real \<Rightarrow> real" where
  "np_log x = fl64 (ln x)"

text \<open>\<^verbatim>\<open>np.log\<close>: minus infinity at zero, NaN below zero.\<close>

fun flog :: "fval \<Rightarrow> fval" where
  "flog (Num a) = (if 0 < a then Num (np_log a) else if a = 0 then NInf else NaN)"
| "flog PInf = PInf"
| "flog NInf = NaN"
| "flog NaN = NaN"

definition is_finite :: "fval \<Rightarrow> bool" where
  "is_finite x = (case x of Num a \<Rightarrow> True | _ \<Rightarrow> False)"

section \<open>Errors\<close>

text \<open>
  The exceptions the two scripts can meet. The columns of the input table of
  \<^verbatim>\<open>kazakhstan_lmdi.py\<close> are named after the short names \<^verbatim>\<open>columns_to_use\<close>
  gives them; each constructor stands for the header of the CSV file that the
  dictionary maps to that short name.
\<close>

datatype column =
  Col_Year | Col_E_total | Col_E_crops | Col_E_livestock | Col_A_total | Col_A_crops | Col_A_livestock

datatype py_error =
    ZeroDivisionError
  | FileNotFoundError
  | KeyError "column list"
  | IntCastingNaNError

section \<open>The decoupling classifier (analysis.py)\<close>

text \<open>
  Division of two Python floats, as \<^verbatim>\<open>get_decoupling_status\<close> receives them from
  iterating a pandas column: a zero divisor raises.
\<close>

definition py_truediv :: "fval \<Rightarrow> fval \<Rightarrow> py_error + fval" where
  "py_truediv x y = (if feq y (Num 0) then Inl ZeroDivisionError else Inr (fdiv x y))"

definition get_decoupling_status :: "fval \<Rightarrow> fval \<Rightarrow> py_error + string" where
  "get_decoupling_status gdp_growth em_growth =
     (if isna gdp_growth \<or> isna em_growth then Inr ''No Data''
      else if fgt gdp_growth (Num 0) \<and> flt em_growth (Num 0) then Inr ''Strong Decoupling''
      else if fgt gdp_growth (Num 0) \<and> fgt em_growth (Num 0) then
        (if feq gdp_growth (Num 0) then Inr ''Not Classified''
         else case py_truediv em_growth gdp_growth of
           Inl err \<Rightarrow> Inl err
         | Inr elasticity \<Rightarrow>
             if flt elasticity (Num 0.8) then Inr ''Weak Decoupling''
             else if fle elasticity (Num 1.2) then Inr ''Coupling''
             else Inr ''Strong Coupling'')
      else if flt gdp_growth (Num 0) \<and> flt em_growth (Num 0) then
        (if feq gdp_growth (Num 0) then Inr ''Not Classified''
         else case py_truediv em_growth gdp_growth of
           Inl err \<Rightarrow> Inl err
         | Inr elasticity \<Rightarrow>
             if fgt elasticity (Num 1.2) then Inr ''Weak Recession''
             else if fge elasticity (Num 0.8) then Inr ''Coupled Recession''
             else Inr ''Strong Recession'')
      else if flt gdp_growth (Num 0) \<and> fgt em_growth (Num 0) then
        Inr ''Strong Negative Coupling''
      else Inr ''Not Classified'')"

text \<open>The closed vocabulary of labels.\<close>

definition labels :: "string list" where
  "labels = [''No Data'', ''Strong Decoupling'', ''Weak Decoupling'', ''Coupling'',
     ''Strong Coupling'', ''Weak Recession'', ''Coupled Recession'', ''Strong Recession'',
     ''Strong Negative Coupling'', ''Not Classified'']"

section \<open>The LMDI decomposition (kazakhstan\_lmdi.py)\<close>

subsection \<open>The logarithmic-mean weight\<close>

text \<open>
  \<^verbatim>\<open>lmdi_weight(v_t, v_0)\<close>. The test for equal arguments comes first, then the two
  substitutions of \<^verbatim>\<open>1e-9\<close>, then the quotient, which numpy computes without
  raising.
\<close>

definition lmdi_weight :: "fval \<Rightarrow> fval \<Rightarrow> fval" where
  "lmdi_weight v_t v_0 =
     (if feq v_t v_0 then v_t
      else
        let v_t' = (if feq v_t (Num 0) \<or> isna v_t then Num (1 / 10 ^ 9) else v_t);
            v_0' = (if feq v_0 (Num 0) \<or> isna v_0 then Num (1 / 10 ^ 9) else v_0)
        in fdiv (fsub v_t' v_0') (fsub (flog v_t') (flog v_0')))"

subsection \<open>Rows of the table\<close>

text \<open>
  A row of the data frame after the seven columns have been selected and renamed. The
  type of the year is a parameter: a float while the table is being cleaned, an integer
  after \<^verbatim>\<open>astype(int)\<close>. The second record adds the four factor columns.
\<close>

record 'y row =
  Year :: 'y
  E_total :: fval
  E_crops :: fval
  E_livestock :: fval
  A_total :: fval
  A_crops :: fval
  A_livestock :: fval

record 'y factor_row = "'y row" +
  S_crops :: fval
  S_livestock :: fval
  I_crops :: fval
  I_livestock :: fval

definition add_factors :: "'y row \<Rightarrow> 'y factor_row" where
  "add_factors r = row.extend r
     \<lparr> S_crops = fdiv (A_crops r) (A_total r),
       S_livestock = fdiv (A_livestock r) (A_total r),
       I_crops = fdiv (E_crops r) (A_crops r),
       I_livestock = fdiv (E_livestock r) (A_livestock r) \<rparr>"

datatype sector = Crops | Livestock

text \<open>The column lookups \<^verbatim>\<open>df.loc[t, f'E_{sector}']\<close> and their like.\<close>

fun E_of :: "sector \<Rightarrow> 'y factor_row \<Rightarrow> fval" where
  "E_of Crops r = E_crops r"
| "E_of Livestock r = E_livestock r"

fun S_of :: "sector \<Rightarrow> 'y factor_row \<Rightarrow> fval" where
  "S_of Crops r = S_crops r"
| "S_of Livestock r = S_livestock r"

fun I_of :: "sector \<Rightarrow> 'y factor_row \<Rightarrow> fval" where
  "I_of Crops r = I_crops r"
| "I_of Livestock r = I_livestock r"

subsection \<open>One pair of consecutive rows\<close>

record result_row =
  res_Year :: int
  Delta_E_Total_Actual :: fval
  Effect_Activity :: fval
  Effect_Structure :: fval
  Effect_Intensity :: fval
  Delta_E_Total_Calculated :: fval

text \<open>
  The body of the loop over the sectors: the three running sums
  \<open>(delta_E_activity, delta_E_structure, delta_E_intensity)\<close> after one more sector.
  \<open>r0\<close> is the row of the previous year, \<open>r\<close> the row of the current one.
\<close>

definition sector_step ::
  "int factor_row \<Rightarrow> int factor_row \<Rightarrow> sector \<Rightarrow> fval \<times> fval \<times> fval \<Rightarrow> fval \<times> fval \<times> fval" where
  "sector_step r0 r sector acc =
     (case acc of (delta_E_activity, delta_E_structure, delta_E_intensity) \<Rightarrow>
        let W_i = lmdi_weight (E_of sector r) (E_of sector r0)
        in (fadd delta_E_activity (fmul W_i (flog (fdiv (A_total r) (A_total r0)))),
            fadd delta_E_structure (fmul W_i (flog (fdiv (S_of sector r) (S_of sector r0)))),
            fadd delta_E_intensity (fmul W_i (flog (fdiv (I_of sector r) (I_of sector r0))))))"

definition sectors :: "sector list" where
  "sectors = [Crops, Livestock]"

definition lmdi_pair :: "int factor_row \<Rightarrow> int factor_row \<Rightarrow> result_row" where
  "lmdi_pair r0 r =
     (case fold (sector_step r0 r) sectors (Num 0, Num 0, Num 0) of
        (delta_E_activity, delta_E_structure, delta_E_intensity) \<Rightarrow>
          \<lparr> res_Year = Year r,
            Delta_E_Total_Actual = fsub (E_total r) (E_total r0),
            Effect_Activity = delta_E_activity,
            Effect_Structure = delta_E_structure,
            Effect_Intensity = delta_E_intensity,
            Delta_E_Total_Calculated =
              fadd (fadd delta_E_activity delta_E_structure) delta_E_intensity \<rparr>)"

text \<open>
  The loop \<^verbatim>\<open>for i in range(1, len(df))\<close>: row \<open>i\<close> is paired with row \<open>i - 1\<close> by
  position, and the results are collected in that order.
\<close>

definition lmdi_results :: "int factor_row list \<Rightarrow> result_row list" where
  "lmdi_results df = map (\<lambda>i. lmdi_pair (df ! (i - 1)) (df ! i)) [1..<length df]"

subsection \<open>The whole run\<close>

text \<open>
  The input of \<^verbatim>\<open>run_lmdi_analysis\<close> is the CSV file, or its absence. Reading the
  file and turning its cells into numbers (\<^verbatim>\<open>clean_column\<close>, \<^verbatim>\<open>pd.to_numeric\<close>) are
  taken as done: a parsed file gives, for each of the seven columns that its header has,
  the cells of that column as numbers, an unreadable cell being NaN. All columns of a
  data frame have the same length.
\<close>

type_synonym raw_table = "column \<Rightarrow> fval list option"

definition columns_to_use :: "column list" where
  "columns_to_use =
     [Col_Year, Col_E_total, Col_E_crops, Col_E_livestock, Col_A_total, Col_A_crops, Col_A_livestock]"

definition cells :: "raw_table \<Rightarrow> column \<Rightarrow> fval list" where
  "cells df c = (case df c of Some xs \<Rightarrow> xs | None \<Rightarrow> [])"

text \<open>
  \<^verbatim>\<open>df[columns_to_use.keys()].rename(columns=columns_to_use)\<close>: pandas raises a
  \<^verbatim>\<open>KeyError\<close> that lists the labels it did not find.
\<close>

definition select_columns :: "raw_table \<Rightarrow> py_error + fval row list" where
  "select_columns df =
     (let missing = filter (\<lambda>c. df c = None) columns_to_use
      in if missing \<noteq> [] then Inl (KeyError missing)
         else Inr (map (\<lambda>i.
           \<lparr> Year = cells df Col_Year ! i,
             E_total = cells df Col_E_total ! i,
             E_crops = cells df Col_E_crops ! i,
             E_livestock = cells df Col_E_livestock ! i,
             A_total = cells df Col_A_total ! i,
             A_crops = cells df Col_A_crops ! i,
             A_livestock = cells df Col_A_livestock ! i \<rparr>) [0..<length (cells df Col_Year)]))"

text \<open>
  \<^verbatim>\<open>dropna(subset=['Year'])\<close>, the filter \<^verbatim>\<open>df['Year'] >= 2003\<close>, and
  \<^verbatim>\<open>astype(int)\<close>, which truncates a finite year and raises on an infinite one. The
  order of the rows is kept as it is in the file.
\<close>

definition filter_years :: "fval row list \<Rightarrow> fval row list" where
  "filter_years rows =
     filter (\<lambda>r. fge (Year r) (Num 2003)) (filter (\<lambda>r. \<not> isna (Year r)) rows)"

definition year_to_int :: "fval row \<Rightarrow> int row option" where
  "year_to_int r =
     (case Year r of
        Num a \<Rightarrow> Some \<lparr> Year = (if 0 \<le> a then \<lfloor>a\<rfloor> else \<lceil>a\<rceil>),
                         E_total = E_total r, E_crops = E_crops r, E_livestock = E_livestock r,
                         A_total = A_total r, A_crops = A_crops r, A_livestock = A_livestock r \<rparr>
      | _ \<Rightarrow> None)"

definition astype_int :: "fval row list \<Rightarrow> py_error + int row list" where
  "astype_int rows =
     (if list_all (\<lambda>r. is_finite (Year r)) rows
      then Inr (map (\<lambda>r. the (year_to_int r)) rows)
      else Inl IntCastingNaNError)"

text \<open>
  \<^verbatim>\<open>df_results.round(2)\<close>: numpy rounds a float to two decimals, a tie going to the
  even neighbour; infinities and NaN stay, and so does the integer column of the years.
\<close>

definition round2 :: "fval \<Rightarrow> fval" where
  "round2 x = (case x of Num a \<Rightarrow> Num (of_int (rint (a * 100)) / 100) | _ \<Rightarrow> x)"

definition round_row :: "result_row \<Rightarrow> result_row" where
  "round_row r =
     \<lparr> res_Year = res_Year r,
       Delta_E_Total_Actual = round2 (Delta_E_Total_Actual r),
       Effect_Activity = round2 (Effect_Activity r),
       Effect_Structure = round2 (Effect_Structure r),
       Effect_Intensity = round2 (Effect_Intensity r),
       Delta_E_Total_Calculated = round2 (Delta_E_Total_Calculated r) \<rparr>"

text \<open>
  What a run leaves behind: the lines it printed, and the two spreadsheets when it wrote
  them. The printed lines are kept as tokens; the line of the general handler carries
  the exception whose text it prints.
\<close>

datatype message =
    Data_cleaned
  | Factors_saved
  | Results_saved
  | Results_table "result_row list"
  | File_not_found
  | Critical_error py_error

record run_state =
  printed :: "message list"
  factors_xlsx :: "int factor_row list option"
  results_xlsx :: "result_row list option"

definition no_output :: run_state where
  "no_output = \<lparr> printed = [], factors_xlsx = None, results_xlsx = None \<rparr>"

text \<open>
  The body of the \<^verbatim>\<open>try\<close> block: either it runs to its end, or an exception leaves
  it with what had been printed and written until then.
\<close>

definition lmdi_try :: "raw_table option \<Rightarrow> (py_error \<times> run_state) + run_state" where
  "lmdi_try file =
     (case file of
        None \<Rightarrow> Inl (FileNotFoundError, no_output)
      | Some df0 \<Rightarrow>
          (case select_columns df0 of
             Inl e \<Rightarrow> Inl (e, no_output)
           | Inr selected \<Rightarrow>
               (case astype_int (filter_years selected) of
                  Inl e \<Rightarrow> Inl (e, no_output)
                | Inr cleaned \<Rightarrow>
                    let df = map add_factors cleaned;
                        results = lmdi_results df;
                        df_results = map round_row results
                    in Inr \<lparr> printed =
                               [Data_cleaned, Factors_saved, Results_saved, Results_table df_results],
                             factors_xlsx = Some df,
                             results_xlsx = Some df_results \<rparr>)))"

text \<open>
  \<^verbatim>\<open>run_lmdi_analysis\<close> with its two handlers. A result \<open>Inl\<close> would be an exception
  that reaches the caller.
\<close>

definition run_lmdi_analysis :: "raw_table option \<Rightarrow> py_error + run_state" where
  "run_lmdi_analysis file =
     (case lmdi_try file of
        Inr s \<Rightarrow> Inr s
      | Inl (e, s) \<Rightarrow>
          if e = FileNotFoundError then Inr (s\<lparr> printed := printed s @ [File_not_found] \<rparr>)
          else Inr (s\<lparr> printed := printed s @ [Critical_error e] \<rparr>))"

subsection \<open>The weight as the specification words it\<close>

text \<open>
  The substitution that \<^verbatim>\<open>lmdi_weight\<close> applies to each of its arguments, and the
  weight as the specification describes it: the substitution first, then the rule for
  the logarithmic mean, the test for equal values included.
\<close>

definition eps_subst :: "fval \<Rightarrow> fval" where
  "eps_subst v = (if feq v (Num 0) \<or> isna v then Num (1 / 10 ^ 9) else v)"

definition lmdi_weight_spec :: "fval \<Rightarrow> fval \<Rightarrow> fval" where
  "lmdi_weight_spec v_t v_0 =
     (let a = eps_subst v_t; b = eps_subst v_0
      in if feq a b then a else fdiv (fsub a b) (fsub (flog a) (flog b)))"

text \<open>A level that is a strictly positive number.\<close>

definition positive :: "fval \<Rightarrow> bool" where
  "positive x = (case x of Num a \<Rightarrow> 0 < a | _ \<Rightarrow> False)"

definition positive_levels :: "'y row \<Rightarrow> bool" where
  "positive_levels r =
     (positive (E_crops r) \<and> positive (E_livestock r) \<and> positive (A_crops r)
      \<and> positive (A_livestock r) \<and> positive (A_total r))"

subsection \<open>Sample inputs\<close>

text \<open>Two years of a two-sector economy with strictly positive levels.\<close>

definition sample_2003 :: "int row" where
  "sample_2003 = \<lparr> Year = 2003, E_total = Num 3, E_crops = Num 1, E_livestock = Num 2,
     A_total = Num 5, A_crops = Num 2, A_livestock = Num 3 \<rparr>"

definition sample_2004 :: "int row" where
  "sample_2004 = \<lparr> Year = 2004, E_total = Num 7, E_crops = Num 3, E_livestock = Num 4,
     A_total = Num 9, A_crops = Num 4, A_livestock = Num 5 \<rparr>"

text \<open>A base year in which the crops sector has no output, and the year after it.\<close>

definition idle_2003 :: "int row" where
  "idle_2003 = \<lparr> Year = 2003, E_total = Num 3, E_crops = Num 1, E_livestock = Num 2,
     A_total = Num 1, A_crops = Num 0, A_livestock = Num 1 \<rparr>"

definition idle_2004 :: "int row" where
  "idle_2004 = \<lparr> Year = 2004, E_total = Num 3, E_crops = Num 1, E_livestock = Num 2,
     A_total = Num 2, A_crops = Num 1, A_livestock = Num 1 \<rparr>"

text \<open>
  Two years between which the emissions of the crops sector move by one unit in the
  last place, from \<open>65536\<close> to the next binary64 number, the total moves with them, and
  no other level changes. A CSV file gives the two crop values as \<^verbatim>\<open>65536\<close> and
  \<^verbatim>\<open>65536.00000000001\<close>.
\<close>

definition stalled_2003 :: "int row" where
  "stalled_2003 = \<lparr> Year = 2003, E_total = Num 65537, E_crops = Num 65536,
     E_livestock = Num 1, A_total = Num 2, A_crops = Num 1, A_livestock = Num 1 \<rparr>"

definition stalled_2004 :: "int row" where
  "stalled_2004 = \<lparr> Year = 2004, E_total = Num (65537 + 1 / 2 ^ 36),
     E_crops = Num (65536 + 1 / 2 ^ 36), E_livestock = Num 1,
     A_total = Num 2, A_crops = Num 1, A_livestock = Num 1 \<rparr>"

text \<open>Three rows with a gap between the first two years.\<close>

definition gap_frame :: "int factor_row list" where
  "gap_frame = map add_factors
     [sample_2003, sample_2004\<lparr> Year := 2005 \<rparr>, sample_2004\<lparr> Year := 2006 \<rparr>]"

text \<open>
  A parsed file with all seven columns whose years go down and then repeat, and the
  same file without the column of the crop emissions.
\<close>

definition unordered_table :: raw_table where
  "unordered_table =
     (\<lambda>c. Some (case c of
        Col_Year \<Rightarrow> [Num 2005, Num 2004, Num 2004]
      | Col_E_total \<Rightarrow> [Num 3, Num 3, Num 3]
      | Col_E_crops \<Rightarrow> [Num 1, Num 1, Num 1]
      | Col_E_livestock \<Rightarrow> [Num 2, Num 2, Num 2]
      | Col_A_total \<Rightarrow> [Num 2, Num 2, Num 2]
      | Col_A_crops \<Rightarrow> [Num 1, Num 1, Num 1]
      | Col_A_livestock \<Rightarrow> [Num 1, Num 1, Num 1]))"

definition unordered_rows :: "fval row list" where
  "unordered_rows =
     map (\<lambda>y. \<lparr> Year = Num y, E_total = Num 3, E_crops = Num 1, E_livestock = Num 2,
                A_total = Num 2, A_crops = Num 1, A_livestock = Num 1 \<rparr>) [2005, 2004, 2004]"

definition table_without_E_crops :: raw_table where
  "table_without_E_crops = unordered_table (Col_E_crops := None)"

definition zero_result :: "int \<Rightarrow> result_row" where
  "zero_result y =
     \<lparr> res_Year = y, Delta_E_Total_Actual = Num 0, Effect_Activity = Num 0,
       Effect_Structure = Num 0, Effect_Intensity = Num 0, Delta_E_Total_Calculated = Num 0 \<rparr>"

section \<open>Properties of the classifier\<close>

lemmas classifier_defs =
  get_decoupling_status_def isna_def py_truediv_def feq_def fgt_def fge_def fle_def

text \<open>
  Claim C2. For two finite growth rates of the same sign, with
  \<open>elasticity = em_growth / gdp_growth\<close>: when both are positive the label is
  \<open>Weak Decoupling\<close> exactly when the elasticity is below 0.8, \<open>Coupling\<close> exactly when
  it lies between 0.8 and 1.2, both ends included, and \<open>Strong Coupling\<close> exactly when
  it is above 1.2; when both are negative the label is \<open>Weak Recession\<close> exactly above
  1.2, \<open>Coupled Recession\<close> exactly between 0.8 and 1.2, both ends included, and
  \<open>Strong Recession\<close> exactly below 0.8.
\<close>

theorem elasticity_bands:
  "(0 < g \<and> 0 < e \<longrightarrow>
      (get_decoupling_status (Num g) (Num e) = Inr ''Weak Decoupling'' \<longleftrightarrow> e / g < 0.8)
    \<and> (get_decoupling_status (Num g) (Num e) = Inr ''Coupling''
          \<longleftrightarrow> 0.8 \<le> e / g \<and> e / g \<le> 1.2)
    \<and> (get_decoupling_status (Num g) (Num e) = Inr ''Strong Coupling'' \<longleftrightarrow> 1.2 < e / g))
 \<and> (g < 0 \<and> e < 0 \<longrightarrow>
      (get_decoupling_status (Num g) (Num e) = Inr ''Weak Recession'' \<longleftrightarrow> 1.2 < e / g)
    \<and> (get_decoupling_status (Num g) (Num e) = Inr ''Coupled Recession''
          \<longleftrightarrow> 0.8 \<le> e / g \<and> e / g \<le> 1.2)
    \<and> (get_decoupling_status (Num g) (Num e) = Inr ''Strong Recession'' \<longleftrightarrow> e / g < 0.8))"
  by (auto simp: classifier_defs)

text \<open>
  The two ends of the middle band under positive growth, and a recession above 1.2.
\<close>

theorem elasticity_bands_witness:
  "get_decoupling_status (Num 5) (Num 4) = Inr ''Coupling''
 \<and> get_decoupling_status (Num 5) (Num 6) = Inr ''Coupling''
 \<and> get_decoupling_status (Num (- 5)) (Num (- 8)) = Inr ''Weak Recession''"
  using elasticity_bands [of 5 4] elasticity_bands [of 5 6] elasticity_bands [of "- 5" "- 8"]
  by simp

text \<open>
  Claim C5. When either growth rate is missing the label is \<open>No Data\<close>, in particular
  for \<open>(NaN, 3.0)\<close> and \<open>(3.0, NaN)\<close>; and for every pair of inputs the classifier
  raises nothing and returns one of the ten labels.
\<close>

theorem classifier_missing_data:
  "get_decoupling_status NaN e = Inr ''No Data''
 \<and> get_decoupling_status g NaN = Inr ''No Data''
 \<and> get_decoupling_status NaN (Num 3) = Inr ''No Data''
 \<and> get_decoupling_status (Num 3) NaN = Inr ''No Data''
 \<and> (\<exists>l. l \<in> set labels \<and> get_decoupling_status g e = Inr l)"
proof -
  have total: "\<exists>l. l \<in> set labels \<and> get_decoupling_status g e = Inr l"
    by (cases g; cases e) (auto simp: labels_def classifier_defs)
  then show ?thesis
    by (simp add: get_decoupling_status_def isna_def)
qed

text \<open>
  Claim C6. For a pair of defined rates: positive economic growth with falling
  emissions is \<open>Strong Decoupling\<close>, negative economic growth with rising emissions is
  \<open>Strong Negative Coupling\<close>, and a pair in which either rate is exactly zero is
  \<open>Not Classified\<close>, whatever the other rate is.
\<close>

theorem sign_quadrants:
  assumes "g \<noteq> NaN" and "e \<noteq> NaN"
  shows "(fgt g (Num 0) \<and> flt e (Num 0) \<longrightarrow>
            get_decoupling_status g e = Inr ''Strong Decoupling'')
       \<and> (flt g (Num 0) \<and> fgt e (Num 0) \<longrightarrow>
            get_decoupling_status g e = Inr ''Strong Negative Coupling'')
       \<and> (feq g (Num 0) \<or> feq e (Num 0) \<longrightarrow>
            get_decoupling_status g e = Inr ''Not Classified'')"
  using assms by (cases g; cases e) (auto simp: classifier_defs)

theorem sign_quadrants_witness:
  "get_decoupling_status (Num 5) (Num (- 2)) = Inr ''Strong Decoupling''
 \<and> get_decoupling_status (Num (- 5)) (Num 2) = Inr ''Strong Negative Coupling''
 \<and> get_decoupling_status (Num 0) (Num 7) = Inr ''Not Classified''
 \<and> get_decoupling_status (Num (- 7)) (Num 0) = Inr ''Not Classified''
 \<and> get_decoupling_status (Num 0) PInf = Inr ''Not Classified''"
  using sign_quadrants [of "Num 5" "Num (- 2)"] sign_quadrants [of "Num (- 5)" "Num 2"]
    sign_quadrants [of "Num 0" "Num 7"] sign_quadrants [of "Num (- 7)" "Num 0"]
    sign_quadrants [of "Num 0" PInf]
  by (simp add: fgt_def feq_def)

text \<open>
  Claim C10. Multiplying both growth rates by the same strictly positive number does
  not change the label: signs and ratio are the same.
\<close>

theorem classifier_scale_invariance:
  assumes "0 < k"
  shows "get_decoupling_status (fmul (Num k) g) (fmul (Num k) e) = get_decoupling_status g e"
  using assms
  by (cases g; cases e)
     (simp_all add: classifier_defs inf_signed_def zero_less_mult_iff mult_less_0_iff)

theorem classifier_scale_invariance_witness:
  "(0 :: real) < 2
 \<and> get_decoupling_status (fmul (Num 2) (Num 5)) (fmul (Num 2) (Num 4))
     = get_decoupling_status (Num 5) (Num 4)
 \<and> get_decoupling_status (Num 10) (Num 8) = Inr ''Coupling''"
proof -
  have k: "(0 :: real) < 2" by simp
  have "get_decoupling_status (Num 5) (Num 4) = Inr ''Coupling''"
    by (simp add: classifier_defs)
  with k classifier_scale_invariance [OF k, of "Num 5" "Num 4"] show ?thesis
    by simp
qed

section \<open>Properties of the rounded logarithm\<close>

lemma rint_unique: "of_int n - 1 / 2 < y \<Longrightarrow> y < of_int n + 1 / 2 \<Longrightarrow> rint y = n"
proof -
  assume a: "of_int n - 1 / 2 < y" and b: "y < of_int n + 1 / 2"
  have "\<lfloor>y\<rfloor> = n \<or> \<lfloor>y\<rfloor> = n - 1"
    using a b by linarith
  then show ?thesis
  proof
    assume f: "\<lfloor>y\<rfloor> = n"
    with b show ?thesis by (simp add: rint_def Let_def)
  next
    assume f: "\<lfloor>y\<rfloor> = n - 1"
    with a show ?thesis by (simp add: rint_def Let_def)
  qed
qed

lemma rint_bounds: "\<lfloor>y\<rfloor> \<le> rint y" "rint y \<le> \<lfloor>y\<rfloor> + 1"
  by (simp_all add: rint_def Let_def)

lemma rint_minus_1: "rint (- 1) = - 1"
proof -
  have "\<lfloor>- 1 :: real\<rfloor> = - 1" by (rule floor_unique) simp_all
  then show ?thesis by (simp add: rint_def Let_def)
qed

lemma rint_nonzero: "1 \<le> \<bar>y\<bar> \<Longrightarrow> rint y \<noteq> 0"
proof -
  assume a: "1 \<le> \<bar>y\<bar>"
  show ?thesis
  proof (cases "1 \<le> y")
    case True
    then have "1 \<le> \<lfloor>y\<rfloor>" by linarith
    with rint_bounds(1) [of y] show ?thesis by linarith
  next
    case False
    with a have y: "y \<le> - 1" by linarith
    show ?thesis
    proof (cases "y = - 1")
      case True
      then show ?thesis by (simp add: rint_minus_1)
    next
      case False
      with y have "y < - 1" by simp
      then have "\<lfloor>y\<rfloor> \<le> - 2" by linarith
      with rint_bounds(2) [of y] show ?thesis by linarith
    qed
  qed
qed

lemma fl64_0: "fl64 0 = 0"
  by (simp add: fl64_def)

text \<open>A number that is not zero is at least one unit of its binade, so it does not round to zero.\<close>

lemma fl64_nonzero: "x \<noteq> 0 \<Longrightarrow> fl64 x \<noteq> 0"
proof -
  assume x: "x \<noteq> 0"
  define ulp :: real where "ulp = 2 powr (of_int \<lfloor>log 2 \<bar>x\<bar>\<rfloor> - 52)"
  have pos: "0 < ulp" by (simp add: ulp_def)
  have "ulp \<le> 2 powr of_int \<lfloor>log 2 \<bar>x\<bar>\<rfloor>"
    unfolding ulp_def by (rule powr_mono) simp_all
  also have "\<dots> \<le> 2 powr log 2 \<bar>x\<bar>"
    by (rule powr_mono) simp_all
  also have "\<dots> = \<bar>x\<bar>"
    using x by simp
  finally have "ulp \<le> \<bar>x\<bar>" .
  then have "1 \<le> \<bar>x / ulp\<bar>"
    using pos by (simp add: pos_le_divide_eq)
  then have "rint (x / ulp) \<noteq> 0" by (rule rint_nonzero)
  then show ?thesis
    using x pos by (simp add: fl64_def Let_def ulp_def)
qed

lemma np_log_1: "np_log 1 = 0"
  by (simp add: np_log_def fl64_0)

lemma np_log_nonzero: "0 < x \<Longrightarrow> x \<noteq> 1 \<Longrightarrow> np_log x \<noteq> 0"
  by (simp add: np_log_def fl64_nonzero)

text \<open>Between 8 and 16 the binary64 numbers are the multiples of \<open>2 ^ - 49\<close>.\<close>

lemma powr_minus_49: "(2::real) powr (- 49) = 1 / 2 ^ 49"
  by (simp add: powr_minus_divide)

lemma fl64_binade_3:
  assumes "8 \<le> x" "x < 16"
  shows "fl64 x = of_int (rint (x * 2 ^ 49)) / 2 ^ 49"
proof -
  have x: "0 < x" using assms by simp
  have "(2::real) powr of_int 3 \<le> x \<and> x < 2 powr (of_int 3 + 1)"
    using assms by simp
  then have "\<lfloor>log 2 x\<rfloor> = 3"
    using x by (subst floor_log_eq_powr_iff) simp_all
  then have "\<lfloor>log 2 \<bar>x\<bar>\<rfloor> = 3" using x by simp
  then show ?thesis
    using x by (simp add: fl64_def Let_def powr_minus_49)
qed

text \<open>
  Bounds of \<open>ln 2\<close> from the series of the exponential function, close enough to place
  \<open>16 * ln 2\<close> between two neighbouring multiples of \<open>2 ^ - 49\<close>.
\<close>

lemma exp_upper:
  fixes x :: real
  assumes "0 \<le> x" "x \<le> 1"
  shows "exp x \<le> (\<Sum>m<n. x ^ m / fact m) + 3 * x ^ n / fact n"
proof -
  obtain t where t: "\<bar>t\<bar> \<le> \<bar>x\<bar>"
    and e: "exp x = (\<Sum>m<n. x ^ m / fact m) + (exp t / fact n) * x ^ n"
    using Maclaurin_exp_le [of x n] by blast
  have "t \<le> 1" using t assms by linarith
  then have "exp t \<le> exp 1" by simp
  also have "\<dots> \<le> 3" by (rule exp_le)
  finally have "exp t \<le> 3" .
  then have "(exp t / fact n) * x ^ n \<le> (3 / fact n) * x ^ n"
    using assms by (intro mult_right_mono divide_right_mono) simp_all
  with e show ?thesis by simp
qed

lemma exp_lower:
  fixes x :: real
  assumes "0 \<le> x"
  shows "(\<Sum>m<n. x ^ m / fact m) \<le> exp x"
proof -
  obtain t where e: "exp x = (\<Sum>m<n. x ^ m / fact m) + (exp t / fact n) * x ^ n"
    using Maclaurin_exp_le [of x n] by blast
  have "0 \<le> (exp t / fact n) * x ^ n" using assms by simp
  with e show ?thesis by linarith
qed

lemma taylor_18:
  "(\<Sum>m<18. (x::real) ^ m / fact m) =
     1 + x * (1 + x / 2 * (1 + x / 3 * (1 + x / 4 * (1 + x / 5 * (1 + x / 6 * (1 + x / 7 *
     (1 + x / 8 * (1 + x / 9 * (1 + x / 10 * (1 + x / 11 * (1 + x / 12 * (1 + x / 13 *
     (1 + x / 14 * (1 + x / 15 * (1 + x / 16 * (1 + x / 17))))))))))))))))"
  by (simp add: lessThan_nat_numeral fact_numeral field_simps power_numeral_reduce)

lemma ln_2_lower: "12486629536330717 / 2 ^ 54 < ln (2::real)"
proof -
  define l :: real where "l = 12486629536330717 / 2 ^ 54"
  have r: "3 * l ^ 18 / fact 18 < 1 / 10 ^ 18"
    unfolding l_def by (simp add: fact_numeral power_divide)
  have s: "(\<Sum>m<18. l ^ m / fact m) < 2 - 1 / 10 ^ 18"
    unfolding taylor_18 l_def by simp
  have "0 \<le> l" "l \<le> 1" by (simp_all add: l_def)
  then have "exp l \<le> (\<Sum>m<18. l ^ m / fact m) + 3 * l ^ 18 / fact 18"
    by (rule exp_upper)
  with r s have "exp l < 2" by linarith
  then have "l < ln 2"
    by (metis exp_less_cancel_iff exp_ln zero_less_numeral)
  then show ?thesis by (simp add: l_def)
qed

lemma ln_2_upper: "ln (2::real) < 49946518145322875 / 2 ^ 56"
proof -
  define u :: real where "u = 49946518145322875 / 2 ^ 56"
  have s: "2 < (\<Sum>m<18. u ^ m / fact m)"
    unfolding taylor_18 u_def by simp
  have "0 \<le> u" by (simp add: u_def)
  then have "(\<Sum>m<18. u ^ m / fact m) \<le> exp u"
    by (rule exp_lower)
  with s have "2 < exp u" by linarith
  then have "ln 2 < u"
    by (metis exp_less_cancel_iff exp_ln zero_less_numeral)
  then show ?thesis by (simp add: u_def)
qed

text \<open>
  The logarithms of \<open>65536\<close> and of the next binary64 number are less than an eighth of
  a unit in the last place apart, and both round to the same number.
\<close>

lemma np_log_65536: "np_log 65536 = 6243314768165359 / 2 ^ 49"
proof -
  have l: "ln (65536::real) = 16 * ln 2"
    using ln_realpow [of "2::real" 16] by simp
  have b: "8 \<le> ln (65536::real)" "ln (65536::real) < 16"
    using ln_2_lower ln_2_upper by (simp_all add: l)
  have "rint (ln 65536 * 2 ^ 49) = 6243314768165359"
    using ln_2_lower ln_2_upper by (intro rint_unique) (simp_all add: l)
  then show ?thesis
    by (simp add: np_log_def fl64_binade_3 [OF b])
qed

lemma np_log_next: "np_log (65536 + 1 / 2 ^ 36) = 6243314768165359 / 2 ^ 49"
proof -
  define b :: real where "b = 65536 + 1 / 2 ^ 36"
  define e :: real where "e = ln (1 + 1 / 2 ^ 52)"
  have "b = 2 ^ 16 * (1 + 1 / 2 ^ 52)" by (simp add: b_def)
  moreover have "ln (2 ^ 16 * (1 + 1 / 2 ^ 52) :: real) = ln (2 ^ 16) + ln (1 + 1 / 2 ^ 52)"
    by (rule ln_mult_pos) simp_all
  ultimately have "ln b = ln (2 ^ 16) + e"
    by (simp only: e_def)
  then have l: "ln b = 16 * ln 2 + e"
    using ln_realpow [of "2::real" 16] by simp
  have s: "0 \<le> e" "e \<le> 1 / 2 ^ 52"
    using ln_add_one_self_le_self [of "1 / 2 ^ 52 :: real"] by (simp_all add: e_def)
  have bd: "8 \<le> ln b" "ln b < 16"
    using ln_2_lower ln_2_upper s by (simp_all add: l)
  have "rint (ln b * 2 ^ 49) = 6243314768165359"
    using ln_2_lower ln_2_upper s by (intro rint_unique) (simp_all add: l algebra_simps)
  then have "np_log b = 6243314768165359 / 2 ^ 49"
    by (simp add: np_log_def fl64_binade_3 [OF bd])
  then show ?thesis
    unfolding b_def .
qed

lemma np_log_collision: "np_log (65536 + 1 / 2 ^ 36) = np_log 65536"
  by (simp only: np_log_65536 np_log_next)

lemma np_log_next_fraction:
  "np_log (4503599627370497 / 68719476736) = 6243314768165359 / 2 ^ 49"
  using np_log_next by simp

section \<open>Properties of the logarithmic-mean weight\<close>

lemma lmdi_weight_Num:
  "0 < a \<Longrightarrow> 0 < b \<Longrightarrow>
   lmdi_weight (Num a) (Num b) =
     (if a = b then Num a else fdiv (Num (a - b)) (Num (np_log a - np_log b)))"
  by (simp add: lmdi_weight_def feq_def isna_def fsub_def Let_def)

text \<open>
  The weight of a value with itself is that value, and the weight of two strictly
  positive values does not depend on their order as long as their computed logarithms
  differ.
\<close>

lemma lmdi_weight_same: "lmdi_weight (Num v) (Num v) = Num v"
  by (simp add: lmdi_weight_def feq_def)

lemma lmdi_weight_symmetric:
  assumes "0 < a" "0 < b" "np_log a \<noteq> np_log b"
  shows "lmdi_weight (Num a) (Num b) = lmdi_weight (Num b) (Num a)"
proof -
  have "(a - b) / (np_log a - np_log b) = (b - a) / (np_log b - np_log a)"
    by (metis minus_diff_eq minus_divide_divide)
  moreover have "a \<noteq> b" using assms(3) by auto
  ultimately show ?thesis
    using assms by (simp add: lmdi_weight_Num)
qed

text \<open>
  Claim C7. The weight is meant to be symmetric for every two different strictly
  positive values. It is not for \<open>65536\<close> and the next binary64 number: their computed
  logarithms are equal, the quotient of line 37 has the divisor zero, and the weight is
  plus infinity in one order and minus infinity in the other.
\<close>

theorem weight_symmetry_failing_input:
  "np_log (65536 + 1 / 2 ^ 36) = np_log 65536
 \<and> lmdi_weight (Num (65536 + 1 / 2 ^ 36)) (Num 65536) = PInf
 \<and> lmdi_weight (Num 65536) (Num (65536 + 1 / 2 ^ 36)) = NInf
 \<and> lmdi_weight (Num (65536 + 1 / 2 ^ 36)) (Num 65536)
     \<noteq> lmdi_weight (Num 65536) (Num (65536 + 1 / 2 ^ 36))"
proof -
  have up: "lmdi_weight (Num (65536 + 1 / 2 ^ 36)) (Num 65536) = PInf"
    by (simp add: lmdi_weight_def feq_def isna_def fsub_def Let_def np_log_65536
        np_log_next_fraction inf_signed_def)
  have down: "lmdi_weight (Num 65536) (Num (65536 + 1 / 2 ^ 36)) = NInf"
    by (simp add: lmdi_weight_def feq_def isna_def fsub_def Let_def np_log_65536
        np_log_next_fraction inf_signed_def)
  from up down np_log_collision show ?thesis
    by (simp only: simp_thms fval.distinct)
qed

text \<open>
  Claim C4, as stated, fails where both values are zero: the specification's weight
  substitutes first and returns \<open>1e-9\<close>, the function tests for equal values first and
  returns zero.
\<close>

theorem weight_of_two_zeros_counterexample:
  "lmdi_weight (Num 0) (Num 0) = Num 0
 \<and> lmdi_weight_spec (Num 0) (Num 0) = Num (1 / 10 ^ 9)
 \<and> lmdi_weight (Num 0) (Num 0) \<noteq> lmdi_weight_spec (Num 0) (Num 0)"
  by (simp add: lmdi_weight_def lmdi_weight_spec_def eps_subst_def feq_def isna_def)

text \<open>
  Claim C4, amended. The weight returns \<open>v_t\<close> unchanged whenever the two values are
  equal, which is tested before any substitution. Otherwise each value that is zero or
  missing is replaced by \<open>1e-9\<close>, and when the two values after the substitution are
  strictly positive numbers \<open>a\<close> and \<open>b\<close> whose computed logarithms differ, the result is
  the quotient of \<open>a - b\<close> by the difference of the two logarithms, which is not NaN.
\<close>

theorem weight_epsilon_policy:
  "(feq v_t v_0 \<longrightarrow> lmdi_weight v_t v_0 = v_t)
 \<and> (\<not> feq v_t v_0 \<and> eps_subst v_t = Num a \<and> eps_subst v_0 = Num b
      \<and> 0 < a \<and> 0 < b \<and> np_log a \<noteq> np_log b \<longrightarrow>
      lmdi_weight v_t v_0 = fdiv (Num (a - b)) (Num (np_log a - np_log b))
    \<and> \<not> isna (lmdi_weight v_t v_0))"
proof (intro conjI impI)
  assume "feq v_t v_0"
  then show "lmdi_weight v_t v_0 = v_t"
    by (simp add: lmdi_weight_def)
next
  assume h: "\<not> feq v_t v_0 \<and> eps_subst v_t = Num a \<and> eps_subst v_0 = Num b
    \<and> 0 < a \<and> 0 < b \<and> np_log a \<noteq> np_log b"
  then have "lmdi_weight v_t v_0 =
      fdiv (fsub (eps_subst v_t) (eps_subst v_0)) (fsub (flog (eps_subst v_t)) (flog (eps_subst v_0)))"
    by (simp add: lmdi_weight_def eps_subst_def Let_def)
  with h show w: "lmdi_weight v_t v_0 = fdiv (Num (a - b)) (Num (np_log a - np_log b))"
    by (simp add: fsub_def)
  from h show "\<not> isna (lmdi_weight v_t v_0)"
    unfolding w by (simp add: isna_def)
qed

theorem weight_epsilon_policy_witness:
  "lmdi_weight (Num 0) (Num 1) = fdiv (Num (1 / 10 ^ 9 - 1)) (Num (np_log (1 / 10 ^ 9) - np_log 1))
 \<and> lmdi_weight NaN (Num 1) = fdiv (Num (1 / 10 ^ 9 - 1)) (Num (np_log (1 / 10 ^ 9) - np_log 1))
 \<and> \<not> isna (lmdi_weight (Num 0) (Num 1))
 \<and> lmdi_weight (Num 2) (Num 2) = Num 2"
proof -
  have d: "np_log (1 / 10 ^ 9) \<noteq> np_log 1"
    using np_log_nonzero [of "1 / 10 ^ 9"] by (simp add: np_log_1)
  have s: "eps_subst (Num 0) = Num (1 / 10 ^ 9)" "eps_subst NaN = Num (1 / 10 ^ 9)"
    "eps_subst (Num 1) = Num 1" "\<not> feq (Num 0) (Num 1)" "\<not> feq NaN (Num 1)"
    "feq (Num 2) (Num 2)"
    by (simp_all add: eps_subst_def feq_def isna_def)
  have p: "(0::real) < 1 / 10 ^ 9" "(0::real) < 1"
    by simp_all
  have zero: "lmdi_weight (Num 0) (Num 1)
        = fdiv (Num (1 / 10 ^ 9 - 1)) (Num (np_log (1 / 10 ^ 9) - np_log 1))
      \<and> \<not> isna (lmdi_weight (Num 0) (Num 1))"
    using weight_epsilon_policy [of "Num 0" "Num 1" "1 / 10 ^ 9" 1] d s p by blast
  have missing: "lmdi_weight NaN (Num 1)
        = fdiv (Num (1 / 10 ^ 9 - 1)) (Num (np_log (1 / 10 ^ 9) - np_log 1))"
    using weight_epsilon_policy [of NaN "Num 1" "1 / 10 ^ 9" 1] d s p by blast
  have same: "lmdi_weight (Num 2) (Num 2) = Num 2"
    using weight_epsilon_policy [of "Num 2" "Num 2"] s by blast
  from zero missing same show ?thesis
    by blast
qed

text \<open>
  The test for equal values is not repeated after the substitution: where both values
  become \<open>1e-9\<close> the quotient is \<open>0 / 0\<close>.
\<close>

lemma lmdi_weight_after_substitution:
  "lmdi_weight NaN NaN = NaN"
  "lmdi_weight (Num 0) NaN = NaN"
  "lmdi_weight NaN (Num 0) = NaN"
  "lmdi_weight (Num 0) (Num (1 / 10 ^ 9)) = NaN"
  by (simp_all add: lmdi_weight_def feq_def isna_def fsub_def Let_def)

section \<open>Properties of one pair of years\<close>

lemma add_factors_simps:
  "Year (add_factors r) = Year r"
  "E_total (add_factors r) = E_total r"
  "E_crops (add_factors r) = E_crops r"
  "E_livestock (add_factors r) = E_livestock r"
  "A_total (add_factors r) = A_total r"
  "A_crops (add_factors r) = A_crops r"
  "A_livestock (add_factors r) = A_livestock r"
  "S_crops (add_factors r) = fdiv (A_crops r) (A_total r)"
  "S_livestock (add_factors r) = fdiv (A_livestock r) (A_total r)"
  "I_crops (add_factors r) = fdiv (E_crops r) (A_crops r)"
  "I_livestock (add_factors r) = fdiv (E_livestock r) (A_livestock r)"
  by (simp_all add: add_factors_def row.defs)

text \<open>The two passes of the loop over the sectors, written out.\<close>

lemma effects_unfold:
  "Effect_Activity (lmdi_pair r0 r) =
     fadd (fadd (Num 0)
       (fmul (lmdi_weight (E_crops r) (E_crops r0)) (flog (fdiv (A_total r) (A_total r0)))))
       (fmul (lmdi_weight (E_livestock r) (E_livestock r0)) (flog (fdiv (A_total r) (A_total r0))))"
  "Effect_Structure (lmdi_pair r0 r) =
     fadd (fadd (Num 0)
       (fmul (lmdi_weight (E_crops r) (E_crops r0)) (flog (fdiv (S_crops r) (S_crops r0)))))
       (fmul (lmdi_weight (E_livestock r) (E_livestock r0))
          (flog (fdiv (S_livestock r) (S_livestock r0))))"
  "Effect_Intensity (lmdi_pair r0 r) =
     fadd (fadd (Num 0)
       (fmul (lmdi_weight (E_crops r) (E_crops r0)) (flog (fdiv (I_crops r) (I_crops r0)))))
       (fmul (lmdi_weight (E_livestock r) (E_livestock r0))
          (flog (fdiv (I_livestock r) (I_livestock r0))))"
  "Delta_E_Total_Calculated (lmdi_pair r0 r) =
     fadd (fadd (Effect_Activity (lmdi_pair r0 r)) (Effect_Structure (lmdi_pair r0 r)))
       (Effect_Intensity (lmdi_pair r0 r))"
  "Delta_E_Total_Actual (lmdi_pair r0 r) = fsub (E_total r) (E_total r0)"
  "res_Year (lmdi_pair r0 r) = Year r"
  by (simp_all add: lmdi_pair_def sectors_def sector_step_def Let_def)

text \<open>
  With exact logarithms the three logarithms of one sector add up to the logarithm of
  the ratio of its emissions, and the logarithmic mean turns that into the change of its
  emissions: this is the identity that the check column relies on.
\<close>

lemma weight_times_log:
  fixes e e0 :: real
  assumes "0 < e" "0 < e0"
  shows "(if e = e0 then e else (e - e0) / (ln e - ln e0)) * (ln e - ln e0) = e - e0"
  using assms by simp

lemma sector_identity:
  fixes e e0 a a0 t t0 w :: real
  assumes pos: "0 < e" "0 < e0" "0 < a" "0 < a0" "0 < t" "0 < t0"
    and w: "w = (if e = e0 then e else (e - e0) / (ln e - ln e0))"
  shows "w * ln (t / t0) + w * ln (a / t / (a0 / t0)) + w * ln (e / a / (e0 / a0)) = e - e0"
proof -
  have "ln (t / t0) + ln (a / t / (a0 / t0)) + ln (e / a / (e0 / a0)) = ln e - ln e0"
    using pos by (simp add: ln_div ln_mult)
  then have "w * ln (t / t0) + w * ln (a / t / (a0 / t0)) + w * ln (e / a / (e0 / a0))
      = w * (ln e - ln e0)"
    by (simp add: distrib_left[symmetric])
  also have "\<dots> = e - e0"
    unfolding w using pos(1,2) by (rule weight_times_log)
  finally show ?thesis .
qed

text \<open>
  Claim C1. The three effects of a result row are meant to add up to
  \<open>Delta_E_Total_Actual\<close>, within a small tolerance. They do not for the two rows
  below, which meet every condition of the claim: all levels are strictly positive and
  \<open>E_total = E_crops + E_livestock\<close> in both years. The crop emissions of the two years
  have the same computed logarithm, so the weight of the sector is infinite; multiplied
  by the logarithm of a ratio that is one it gives NaN for the activity and the
  structure effect and for the check column, while the actual change is the number
  \<open>2 ^ - 36\<close>.
\<close>

theorem reconciliation_failing_input:
  "positive_levels stalled_2003 \<and> positive_levels stalled_2004
 \<and> E_total stalled_2003 = fadd (E_crops stalled_2003) (E_livestock stalled_2003)
 \<and> E_total stalled_2004 = fadd (E_crops stalled_2004) (E_livestock stalled_2004)
 \<and> lmdi_weight (E_crops stalled_2004) (E_crops stalled_2003) = PInf
 \<and> Effect_Activity (lmdi_pair (add_factors stalled_2003) (add_factors stalled_2004)) = NaN
 \<and> Effect_Structure (lmdi_pair (add_factors stalled_2003) (add_factors stalled_2004)) = NaN
 \<and> Delta_E_Total_Calculated (lmdi_pair (add_factors stalled_2003) (add_factors stalled_2004))
     = NaN
 \<and> Delta_E_Total_Actual (lmdi_pair (add_factors stalled_2003) (add_factors stalled_2004))
     = Num (1 / 2 ^ 36)"
proof -
  have h: "positive_levels stalled_2003" "positive_levels stalled_2004"
    "E_total stalled_2003 = fadd (E_crops stalled_2003) (E_livestock stalled_2003)"
    "E_total stalled_2004 = fadd (E_crops stalled_2004) (E_livestock stalled_2004)"
    by (simp_all add: positive_levels_def positive_def stalled_2003_def stalled_2004_def)
  have w: "lmdi_weight (E_crops stalled_2004) (E_crops stalled_2003) = PInf"
    by (simp add: stalled_2003_def stalled_2004_def lmdi_weight_def feq_def isna_def fsub_def
        Let_def np_log_65536 np_log_next_fraction inf_signed_def)
  have one: "flog (fdiv (A_total stalled_2004) (A_total stalled_2003)) = Num 0"
    "flog (fdiv (fdiv (A_crops stalled_2004) (A_total stalled_2004))
            (fdiv (A_crops stalled_2003) (A_total stalled_2003))) = Num 0"
    by (simp_all add: stalled_2003_def stalled_2004_def np_log_1)
  have act: "Effect_Activity (lmdi_pair (add_factors stalled_2003) (add_factors stalled_2004))
      = NaN"
    by (simp add: effects_unfold(1) add_factors_simps w one)
  have str: "Effect_Structure (lmdi_pair (add_factors stalled_2003) (add_factors stalled_2004))
      = NaN"
    by (simp add: effects_unfold(2) add_factors_simps w one)
  have calc: "Delta_E_Total_Calculated
      (lmdi_pair (add_factors stalled_2003) (add_factors stalled_2004)) = NaN"
    by (simp add: effects_unfold(4) act)
  have actual: "Delta_E_Total_Actual
      (lmdi_pair (add_factors stalled_2003) (add_factors stalled_2004)) = Num (1 / 2 ^ 36)"
    by (simp add: effects_unfold(5) add_factors_simps stalled_2003_def stalled_2004_def fsub_def)
  from h w act str calc actual show ?thesis
    by (simp only: simp_thms)
qed

subsection \<open>A base year without output in one sector\<close>

lemma positiveE: "positive x \<Longrightarrow> (\<And>a. x = Num a \<Longrightarrow> 0 < a \<Longrightarrow> P) \<Longrightarrow> P"
  by (cases x) (simp_all add: positive_def)

lemma fmul_not_finite: "\<not> is_finite y \<Longrightarrow> \<not> is_finite (fmul x y)"
  by (cases x; cases y) (simp_all add: is_finite_def inf_signed_def)

lemma flog_not_finite: "\<not> is_finite y \<Longrightarrow> \<not> is_finite (flog y)"
  by (cases y) (simp_all add: is_finite_def)

lemma flog_zero_or_nan: "y = Num 0 \<or> y = NaN \<Longrightarrow> \<not> is_finite (flog y)"
  by (auto simp: is_finite_def)

lemma fdiv_by_zero_not_finite: "\<not> is_finite (fdiv x (Num 0))"
  by (cases x) (simp_all add: is_finite_def inf_signed_def)

lemma fdiv_zero_num: "fdiv (Num 0) y = Num 0 \<or> fdiv (Num 0) y = NaN"
  by (cases y) simp_all

lemma fdiv_by_zero_or_nan: "y = Num 0 \<or> y = NaN \<Longrightarrow> \<not> is_finite (fdiv x y)"
  by (cases x) (auto simp: is_finite_def inf_signed_def split: if_splits)

lemma fdiv_by_not_finite: "\<not> is_finite y \<Longrightarrow> fdiv x y = Num 0 \<or> fdiv x y = NaN"
  by (cases x; cases y) (simp_all add: is_finite_def)

text \<open>
  With \<open>A_i(t-1) = 0\<close> the share of the base year is zero or NaN and its intensity is
  infinite or NaN, so neither term of the sector is a finite number, whatever the weight.
\<close>

lemma structure_term:
  "A0 = Num 0 \<Longrightarrow> \<not> is_finite (fmul w (flog (fdiv s (fdiv A0 T0))))"
  by (intro fmul_not_finite flog_not_finite fdiv_by_zero_or_nan) (simp add: fdiv_zero_num)

lemma intensity_term:
  "A0 = Num 0 \<Longrightarrow> \<not> is_finite (fmul w (flog (fdiv i (fdiv E0 A0))))"
  by (intro fmul_not_finite flog_zero_or_nan fdiv_by_not_finite)
     (simp add: fdiv_by_zero_not_finite)

lemma two_terms_not_finite:
  "\<not> is_finite a \<or> \<not> is_finite b \<Longrightarrow> \<not> is_finite (fadd (fadd (Num 0) a) b)"
  by (cases a; cases b) (simp_all add: is_finite_def)

text \<open>
  Claim C9, as stated, fails for a base year in which the crops sector has no output
  and every other level is strictly positive: the share of the sector in the base year
  is the number zero, and the two effects are the two infinities, which pandas does not
  count as missing.
\<close>

theorem zero_base_output_counterexample:
  "A_crops idle_2003 = Num 0
 \<and> S_crops (add_factors idle_2003) = Num 0
 \<and> \<not> isna (S_crops (add_factors idle_2003))
 \<and> Effect_Structure (lmdi_pair (add_factors idle_2003) (add_factors idle_2004)) = PInf
 \<and> Effect_Intensity (lmdi_pair (add_factors idle_2003) (add_factors idle_2004)) = NInf
 \<and> \<not> isna (Effect_Structure (lmdi_pair (add_factors idle_2003) (add_factors idle_2004)))
 \<and> \<not> isna (Effect_Intensity (lmdi_pair (add_factors idle_2003) (add_factors idle_2004)))"
  by (simp add: effects_unfold add_factors_simps idle_2003_def idle_2004_def isna_def
      lmdi_weight_def feq_def inf_signed_def)

text \<open>
  Claim C9, amended. For every pair of years in which a sector has \<open>A_i(t-1) = 0\<close>,
  \<open>Effect_Structure\<close> and \<open>Effect_Intensity\<close> of the pair are not finite numbers: each is
  an infinity or NaN, never zero, so a caller can tell them from a computed effect. They
  need not be missing values, and the share of the base year is not undefined: when the
  sector is crops and \<open>A_total(t-1)\<close> is a strictly positive number, \<open>S_crops(t-1)\<close> is
  zero.
\<close>

theorem zero_base_output:
  "(A_crops r0 = Num 0 \<or> A_livestock r0 = Num 0 \<longrightarrow>
      \<not> is_finite (Effect_Structure (lmdi_pair (add_factors r0) (add_factors r)))
    \<and> \<not> is_finite (Effect_Intensity (lmdi_pair (add_factors r0) (add_factors r)))
    \<and> Effect_Structure (lmdi_pair (add_factors r0) (add_factors r)) \<noteq> Num 0
    \<and> Effect_Intensity (lmdi_pair (add_factors r0) (add_factors r)) \<noteq> Num 0)
 \<and> (A_crops r0 = Num 0 \<and> positive (A_total r0) \<longrightarrow>
      S_crops (add_factors r0) = Num 0 \<and> \<not> isna (S_crops (add_factors r0)))"
proof (intro conjI impI)
  assume z: "A_crops r0 = Num 0 \<or> A_livestock r0 = Num 0"
  have nf: "\<not> is_finite (Effect_Structure (lmdi_pair (add_factors r0) (add_factors r)))
          \<and> \<not> is_finite (Effect_Intensity (lmdi_pair (add_factors r0) (add_factors r)))"
    using z
  proof
    assume "A_crops r0 = Num 0"
    then show ?thesis
      unfolding effects_unfold add_factors_simps
      by (intro conjI two_terms_not_finite disjI1 structure_term intensity_term)
  next
    assume "A_livestock r0 = Num 0"
    then show ?thesis
      unfolding effects_unfold add_factors_simps
      by (intro conjI two_terms_not_finite disjI2 structure_term intensity_term)
  qed
  show "\<not> is_finite (Effect_Structure (lmdi_pair (add_factors r0) (add_factors r)))"
    using nf by simp
  show "\<not> is_finite (Effect_Intensity (lmdi_pair (add_factors r0) (add_factors r)))"
    using nf by simp
  show "Effect_Structure (lmdi_pair (add_factors r0) (add_factors r)) \<noteq> Num 0"
    using nf by (auto simp: is_finite_def)
  show "Effect_Intensity (lmdi_pair (add_factors r0) (add_factors r)) \<noteq> Num 0"
    using nf by (auto simp: is_finite_def)
next
  assume h: "A_crops r0 = Num 0 \<and> positive (A_total r0)"
  then obtain at0 where t: "A_total r0 = Num at0" "0 < at0"
    by (elim conjE positiveE) blast
  from h t show s: "S_crops (add_factors r0) = Num 0"
    by (simp add: add_factors_simps)
  show "\<not> isna (S_crops (add_factors r0))"
    unfolding s by (simp add: isna_def)
qed

theorem zero_base_output_witness:
  "A_crops idle_2003 = Num 0
 \<and> positive (A_total idle_2003)
 \<and> \<not> is_finite (Effect_Structure (lmdi_pair (add_factors idle_2003) (add_factors idle_2004)))
 \<and> \<not> is_finite (Effect_Intensity (lmdi_pair (add_factors idle_2003) (add_factors idle_2004)))
 \<and> Effect_Structure (lmdi_pair (add_factors idle_2003) (add_factors idle_2004)) \<noteq> Num 0
 \<and> Effect_Intensity (lmdi_pair (add_factors idle_2003) (add_factors idle_2004)) \<noteq> Num 0
 \<and> S_crops (add_factors idle_2003) = Num 0"
proof -
  have h: "A_crops idle_2003 = Num 0" "positive (A_total idle_2003)"
    by (simp_all add: positive_def idle_2003_def)
  from zero_base_output [of idle_2003 idle_2004] h show ?thesis
    by simp
qed

section \<open>Properties of the loop over the years\<close>

lemma length_lmdi_results: "length (lmdi_results df) = length df - 1"
  by (simp add: lmdi_results_def)

lemma nth_lmdi_results:
  "i < length df - 1 \<Longrightarrow> lmdi_results df ! i = lmdi_pair (df ! i) (df ! Suc i)"
  by (simp add: lmdi_results_def)

lemma years_lmdi_results: "map res_Year (lmdi_results df) = map Year (tl df)"
  by (rule nth_equalityI)
     (simp_all add: length_lmdi_results nth_lmdi_results effects_unfold(6) nth_tl)

lemma sorted_wrt_tail: "sorted_wrt P xs \<Longrightarrow> sorted_wrt P (tl xs)"
  by (cases xs) simp_all

text \<open>
  Claim C8. A table of \<open>N \<ge> 2\<close> rows gives exactly \<open>N - 1\<close> result rows; the row at
  position \<open>i\<close> is computed from the input rows at positions \<open>i\<close> and \<open>i + 1\<close> and carries
  the year of the later one, so the years of the results are the years of the input
  without the first; they are in ascending order when the input's are.
\<close>

theorem sequence_length:
  assumes "2 \<le> length df"
  shows "length (lmdi_results df) = length df - 1
       \<and> (\<forall>i. i < length df - 1 \<longrightarrow>
              lmdi_results df ! i = lmdi_pair (df ! i) (df ! Suc i)
            \<and> res_Year (lmdi_results df ! i) = Year (df ! Suc i))
       \<and> map res_Year (lmdi_results df) = map Year (tl df)
       \<and> (sorted_wrt (<) (map Year df) \<longrightarrow> sorted_wrt (<) (map res_Year (lmdi_results df)))"
  by (simp add: length_lmdi_results nth_lmdi_results effects_unfold(6) years_lmdi_results
      sorted_wrt_tail map_tl)

theorem sequence_length_witness:
  "2 \<le> length gap_frame
 \<and> sorted_wrt (<) (map Year gap_frame)
 \<and> length gap_frame = 3
 \<and> length (lmdi_results gap_frame) = 2
 \<and> map res_Year (lmdi_results gap_frame) = [2005, 2006]
 \<and> sorted_wrt (<) (map res_Year (lmdi_results gap_frame))
 \<and> lmdi_results gap_frame ! 0 = lmdi_pair (gap_frame ! 0) (gap_frame ! 1)"
proof -
  have n: "2 \<le> length gap_frame" "length gap_frame = 3"
    by (simp_all add: gap_frame_def)
  have y: "map Year gap_frame = [2003, 2005, 2006]"
    "map Year (tl gap_frame) = [2005, 2006]"
    by (simp_all add: gap_frame_def add_factors_simps sample_2003_def sample_2004_def)
  from sequence_length [OF n(1)] n y show ?thesis
    by simp
qed

section \<open>Properties of the whole run\<close>

lemma upt_3: "[0..<3] = [0, 1, 2]" "[1..<3] = [1, 2]"
  by (simp_all add: upt_rec)

lemma select_unordered: "select_columns unordered_table = Inr unordered_rows"
  by (simp add: select_columns_def unordered_table_def unordered_rows_def columns_to_use_def
      cells_def upt_3)

lemma filter_unordered: "filter_years unordered_rows = unordered_rows"
  by (simp add: filter_years_def unordered_rows_def fge_def fle_def feq_def isna_def)

lemma astype_unordered:
  "astype_int (filter_years unordered_rows) =
     Inr (map (\<lambda>y. \<lparr> Year = y, E_total = Num 3, E_crops = Num 1, E_livestock = Num 2,
                       A_total = Num 2, A_crops = Num 1, A_livestock = Num 1 \<rparr>)
            [2005, 2004, 2004])"
  by (simp add: filter_unordered)
     (simp add: unordered_rows_def astype_int_def is_finite_def year_to_int_def)

lemma rint_0: "rint 0 = 0"
  by (simp add: rint_def)

lemma res_Year_round_row: "res_Year (round_row r) = res_Year r"
  by (simp add: round_row_def)

text \<open>
  The table that is written holds the rounded columns, and rounding does not commute
  with the sum: three effects of 0.004 are written as 0.00 each, their sum as 0.01.
\<close>

lemma rounded_columns:
  "fadd (fadd (round2 (Num 0.004)) (round2 (Num 0.004))) (round2 (Num 0.004)) = Num 0
 \<and> round2 (fadd (fadd (Num 0.004) (Num 0.004)) (Num 0.004)) = Num 0.01"
  by (simp add: round2_def rint_def Let_def)

text \<open>Every exception of the body is caught by one of the two handlers.\<close>

lemma run_returns: "\<exists>s. run_lmdi_analysis file = Inr s"
  by (simp add: run_lmdi_analysis_def split: sum.splits prod.splits)

lemma run_missing_column:
  assumes "c \<in> set columns_to_use" "df c = None"
  shows "run_lmdi_analysis (Some df) =
      Inr \<lparr> printed = [Critical_error (KeyError (filter (\<lambda>c. df c = None) columns_to_use))],
            factors_xlsx = None, results_xlsx = None \<rparr>
    \<and> c \<in> set (filter (\<lambda>c. df c = None) columns_to_use)"
proof -
  from assms have m: "c \<in> set (filter (\<lambda>c. df c = None) columns_to_use)" by simp
  then have ne: "filter (\<lambda>c. df c = None) columns_to_use \<noteq> []"
    by (metis empty_iff empty_set)
  have "select_columns df = Inl (KeyError (filter (\<lambda>c. df c = None) columns_to_use))"
    using ne by (simp add: select_columns_def Let_def)
  then show ?thesis using m
    by (simp add: run_lmdi_analysis_def lmdi_try_def no_output_def)
qed

lemma run_all_columns:
  assumes s: "select_columns df = Inr selected"
    and f: "list_all (\<lambda>r. is_finite (Year r)) (filter_years selected)"
  shows "\<exists>rows fs. run_lmdi_analysis (Some df) =
      Inr \<lparr> printed = [Data_cleaned, Factors_saved, Results_saved, Results_table rows],
            factors_xlsx = Some fs, results_xlsx = Some rows \<rparr>
    \<and> length rows = length (filter_years selected) - 1
    \<and> map res_Year rows = tl (map (\<lambda>r. Year (the (year_to_int r))) (filter_years selected))"
  using f
  by (simp add: run_lmdi_analysis_def lmdi_try_def s astype_int_def Let_def length_lmdi_results
      years_lmdi_results o_def res_Year_round_row map_tl add_factors_simps)

text \<open>
  Claim C3, as stated, fails on a file whose years go down and then repeat: the run
  prints its four ordinary lines, no error, and writes two result rows.
\<close>

theorem unordered_years_counterexample:
  "map_sum id results_xlsx (run_lmdi_analysis (Some unordered_table))
     = Inr (Some [zero_result 2004, zero_result 2004])
 \<and> map_sum id printed (run_lmdi_analysis (Some unordered_table))
     = Inr [Data_cleaned, Factors_saved, Results_saved,
            Results_table [zero_result 2004, zero_result 2004]]"
  by (simp add: run_lmdi_analysis_def lmdi_try_def select_unordered astype_unordered
      lmdi_results_def upt_3 Let_def lmdi_pair_def sectors_def sector_step_def
      add_factors_simps lmdi_weight_def feq_def fsub_def round_row_def round2_def rint_0
      zero_result_def np_log_1)

text \<open>
  Claim C3, amended. The run returns normally on every input, the exceptions of its
  body being caught inside it. When a required column is absent, it writes neither
  spreadsheet and prints one line, which carries the \<open>KeyError\<close> that lists the missing
  columns. The order of the years is not checked: when the seven columns are present and
  the years that pass the filter are finite, the rows are paired by position whatever
  their years, \<open>N\<close> rows give \<open>N - 1\<close> result rows that carry the years of the rows after
  the first, and no error line is printed.
\<close>

theorem structural_conditions:
  "(\<exists>s. run_lmdi_analysis file = Inr s)
 \<and> (c \<in> set columns_to_use \<and> df c = None \<longrightarrow>
      run_lmdi_analysis (Some df) =
        Inr \<lparr> printed = [Critical_error (KeyError (filter (\<lambda>c. df c = None) columns_to_use))],
              factors_xlsx = None, results_xlsx = None \<rparr>
    \<and> c \<in> set (filter (\<lambda>c. df c = None) columns_to_use))
 \<and> (select_columns df = Inr selected
      \<and> list_all (\<lambda>r. is_finite (Year r)) (filter_years selected) \<longrightarrow>
      (\<exists>rows fs. run_lmdi_analysis (Some df) =
          Inr \<lparr> printed = [Data_cleaned, Factors_saved, Results_saved, Results_table rows],
                factors_xlsx = Some fs, results_xlsx = Some rows \<rparr>
        \<and> length rows = length (filter_years selected) - 1
        \<and> map res_Year rows
            = tl (map (\<lambda>r. Year (the (year_to_int r))) (filter_years selected))))"
  using run_returns [of "file"] run_missing_column [of c df] run_all_columns [of df selected]
  by blast

theorem structural_conditions_witness:
  "run_lmdi_analysis (Some table_without_E_crops) =
     Inr \<lparr> printed = [Critical_error (KeyError [Col_E_crops])],
           factors_xlsx = None, results_xlsx = None \<rparr>
 \<and> select_columns unordered_table = Inr unordered_rows
 \<and> map_sum id (\<lambda>s. map_option (map res_Year) (results_xlsx s))
      (run_lmdi_analysis (Some unordered_table)) = Inr (Some [2004, 2004])"
proof -
  have c: "Col_E_crops \<in> set columns_to_use" "table_without_E_crops Col_E_crops = None"
    by (simp_all add: columns_to_use_def table_without_E_crops_def)
  have m: "filter (\<lambda>c. table_without_E_crops c = None) columns_to_use = [Col_E_crops]"
    by (simp add: columns_to_use_def table_without_E_crops_def unordered_table_def)
  have f: "list_all (\<lambda>r. is_finite (Year r)) (filter_years unordered_rows)"
    by (simp add: filter_unordered) (simp add: unordered_rows_def is_finite_def)
  have y: "tl (map (\<lambda>r. Year (the (year_to_int r))) (filter_years unordered_rows))
      = [2004, 2004]"
    by (simp add: filter_unordered) (simp add: unordered_rows_def year_to_int_def)
  from structural_conditions [of "Some table_without_E_crops" Col_E_crops
      table_without_E_crops unordered_rows] c m
  have first: "run_lmdi_analysis (Some table_without_E_crops) =
     Inr \<lparr> printed = [Critical_error (KeyError [Col_E_crops])],
           factors_xlsx = None, results_xlsx = None \<rparr>"
    by simp
  from structural_conditions [of "Some unordered_table" Col_Year unordered_table
      unordered_rows] select_unordered f y
  have second: "map_sum id (\<lambda>s. map_option (map res_Year) (results_xlsx s))
      (run_lmdi_analysis (Some unordered_table)) = Inr (Some [2004, 2004])"
    by auto
  from first select_unordered second show ?thesis
    by simp
qed

end
